theory Spec2Isabelle
  imports Complex_Main "HOL-Library.Finite_Map"
begin

section \<open>Data model (types.ts)\<close>

text \<open>
  The trait codes \<^verbatim>\<open>'E' | 'A' | 'C' | 'N' | 'O'\<close> of the \<^verbatim>\<open>Question\<close> interface.
\<close>

datatype trait = TraitE | TraitA | TraitC | TraitN | TraitO

text \<open>
  \<^verbatim>\<open>interface Question { id; text; trait; isPositive }\<close>. The fields \<^verbatim>\<open>id\<close> and
  \<^verbatim>\<open>text\<close> are called \<open>qid\<close> and \<open>qtext\<close> here.
\<close>

record Question =
  qid :: int
  qtext :: string
  trait :: trait
  isPositive :: bool

text \<open>
  A JavaScript number as the scorer can produce it: a value, or \<^verbatim>\<open>NaN\<close> (arithmetic on
  \<^verbatim>\<open>undefined\<close>). Raw answers are integers; sums and halves of integers of the size a
  questionnaire can hold are exact in double precision, so the value is a rational.
\<close>

datatype jsnumber = Num rat | NaN

text \<open>\<^verbatim>\<open>interface Scores { E; A; C; N; O }\<close>.\<close>

record Scores =
  score_E :: jsnumber
  score_A :: jsnumber
  score_C :: jsnumber
  score_N :: jsnumber
  score_O :: jsnumber

text \<open>Property access \<^verbatim>\<open>scores[t]\<close> for a trait code \<open>t\<close>.\<close>

fun score_of :: "Scores \<Rightarrow> trait \<Rightarrow> jsnumber" where
  "score_of sc TraitE = score_E sc"
| "score_of sc TraitA = score_A sc"
| "score_of sc TraitC = score_C sc"
| "score_of sc TraitN = score_N sc"
| "score_of sc TraitO = score_O sc"

section \<open>Question catalog (the \<^verbatim>\<open>constants\<close> module)\<close>

text \<open>
  The prompt texts are Japanese; each is given as the UTF-8 bytes of the source literal.
\<close>

definition text_1 :: string where
  "text_1 =
    [
     CHR 0xE7, CHR 0xA7, CHR 0x81, CHR 0xE3, CHR 0x81, CHR 0xAF, CHR 0xE3, CHR 0x80, CHR 0x81,
     CHR 0xE5, CHR 0x88, CHR 0x9D, CHR 0xE3, CHR 0x82, CHR 0x81, CHR 0xE3, CHR 0x81, CHR 0xA6,
     CHR 0xE3, CHR 0x81, CHR 0xAE, CHR 0xE4, CHR 0xBA, CHR 0xBA, CHR 0xE3, CHR 0x81, CHR 0xAB,
     CHR 0xE4, CHR 0xBC, CHR 0x9A, CHR 0xE3, CHR 0x81, CHR 0x86, CHR 0xE3, CHR 0x81, CHR 0xAE,
     CHR 0xE3, CHR 0x81, CHR 0x8C, CHR 0xE5, CHR 0xA5, CHR 0xBD, CHR 0xE3, CHR 0x81, CHR 0x8D,
     CHR 0xE3, CHR 0x81, CHR 0xA7, CHR 0xE3, CHR 0x80, CHR 0x81, CHR 0xE4, CHR 0xBC, CHR 0x9A,
     CHR 0xE8, CHR 0xA9, CHR 0xB1, CHR 0xE3, CHR 0x82, CHR 0x92, CHR 0xE3, CHR 0x81, CHR 0x99,
     CHR 0xE3, CHR 0x82, CHR 0x8B, CHR 0xE3, CHR 0x81, CHR 0xAE, CHR 0xE3, CHR 0x81, CHR 0x8C,
     CHR 0xE5, CHR 0xA5, CHR 0xBD, CHR 0xE3, CHR 0x81, CHR 0x8D, CHR 0xE3, CHR 0x81, CHR 0xA7,
     CHR 0xE3, CHR 0x80, CHR 0x81, CHR 0xE4, CHR 0xBA, CHR 0xBA, CHR 0xE3, CHR 0x81, CHR 0xA8,
     CHR 0xE4, CHR 0xBC, CHR 0x9A, CHR 0xE3, CHR 0x81, CHR 0x86, CHR 0xE3, CHR 0x81, CHR 0xAE,
     CHR 0xE3, CHR 0x82, CHR 0x92, CHR 0xE6, CHR 0xA5, CHR 0xBD, CHR 0xE3, CHR 0x81, CHR 0x97,
     CHR 0xE3, CHR 0x82, CHR 0x81, CHR 0xE3, CHR 0x82, CHR 0x8B, CHR 0xE4, CHR 0xBA, CHR 0xBA,
     CHR 0xE9, CHR 0x96, CHR 0x93, CHR 0xE3, CHR 0x81, CHR 0xA0, CHR 0xE3, CHR 0x80, CHR 0x82]"

definition text_2 :: string where
  "text_2 =
    [
     CHR 0xE7, CHR 0xA7, CHR 0x81, CHR 0xE3, CHR 0x81, CHR 0xAF, CHR 0xE3, CHR 0x80, CHR 0x81,
     CHR 0xE4, CHR 0xBA, CHR 0xBA, CHR 0xE3, CHR 0x81, CHR 0xAB, CHR 0xE5, CHR 0xAF, CHR 0xBE,
     CHR 0xE3, CHR 0x81, CHR 0x97, CHR 0xE3, CHR 0x81, CHR 0xA6, CHR 0xE6, CHR 0x80, CHR 0x9D,
     CHR 0xE3, CHR 0x81, CHR 0x84, CHR 0xE3, CHR 0x82, CHR 0x84, CHR 0xE3, CHR 0x82, CHR 0x8A,
     CHR 0xE3, CHR 0x81, CHR 0x8C, CHR 0xE3, CHR 0x81, CHR 0x82, CHR 0xE3, CHR 0x82, CHR 0x8A,
     CHR 0xE3, CHR 0x80, CHR 0x81, CHR 0xE3, CHR 0x81, CHR 0x9D, CHR 0xE3, CHR 0x81, CHR 0xAE,
     CHR 0xE6, CHR 0x80, CHR 0x9D, CHR 0xE3, CHR 0x81, CHR 0x84, CHR 0xE3, CHR 0x82, CHR 0x84,
     CHR 0xE3, CHR 0x82, CHR 0x8A, CHR 0xE3, CHR 0x82, CHR 0x92, CHR 0xE8, CHR 0xA1, CHR 0x8C,
     CHR 0xE5, CHR 0x8B, CHR 0x95, CHR 0xE3, CHR 0x81, CHR 0xAB, CHR 0xE7, CHR 0xA7, CHR 0xBB,
     CHR 0xE3, CHR 0x81, CHR 0x97, CHR 0xE3, CHR 0x80, CHR 0x81, CHR 0xE4, CHR 0xBB, CHR 0x96,
     CHR 0xE4, CHR 0xBA, CHR 0xBA, CHR 0xE3, CHR 0x82, CHR 0x92, CHR 0xE5, CHR 0xB7, CHR 0xAE,
     CHR 0xE5, CHR 0x88, CHR 0xA5, CHR 0xE3, CHR 0x81, CHR 0x97, CHR 0xE3, CHR 0x81, CHR 0xAA,
     CHR 0xE3, CHR 0x81, CHR 0x84, CHR 0xE4, CHR 0xBA, CHR 0xBA, CHR 0xE9, CHR 0x96, CHR 0x93,
     CHR 0xE3, CHR 0x81, CHR 0xA0, CHR 0xE3, CHR 0x80, CHR 0x82]"

definition text_3 :: string where
  "text_3 =
    [
     CHR 0xE7, CHR 0xA7, CHR 0x81, CHR 0xE3, CHR 0x81, CHR 0xAF, CHR 0xE3, CHR 0x80, CHR 0x81,
     CHR 0xE3, CHR 0x81, CHR 0x8D, CHR 0xE3, CHR 0x81, CHR 0xA3, CHR 0xE3, CHR 0x81, CHR 0xA1,
     CHR 0xE3, CHR 0x82, CHR 0x8A, CHR 0xE3, CHR 0x81, CHR 0xA8, CHR 0xE7, CHR 0x89, CHR 0xA9,
     CHR 0xE4, CHR 0xBA, CHR 0x8B, CHR 0xE3, CHR 0x82, CHR 0x92, CHR 0xE3, CHR 0x81, CHR 0x93,
     CHR 0xE3, CHR 0x81, CHR 0xAA, CHR 0xE3, CHR 0x81, CHR 0x97, CHR 0xE3, CHR 0x80, CHR 0x81,
     CHR 0xE6, CHR 0x89, CHR 0x8B, CHR 0xE9, CHR 0x9A, CHR 0x9B, CHR 0xE3, CHR 0x82, CHR 0x88,
     CHR 0xE3, CHR 0x81, CHR 0x8F, CHR 0xE8, CHR 0xA1, CHR 0x8C, CHR 0xE5, CHR 0x8B, CHR 0x95,
     CHR 0xE3, CHR 0x81, CHR 0x97, CHR 0xE3, CHR 0x80, CHR 0x81, CHR 0xE9, CHR 0x81, CHR 0xA9,
     CHR 0xE5, CHR 0x88, CHR 0x87, CHR 0xE3, CHR 0x81, CHR 0xAB, CHR 0xE7, CHR 0x89, CHR 0xA9,
     CHR 0xE4, CHR 0xBA, CHR 0x8B, CHR 0xE3, CHR 0x82, CHR 0x92, CHR 0xE8, CHR 0xA1, CHR 0x8C,
     CHR 0xE3, CHR 0x81, CHR 0x8A, CHR 0xE3, CHR 0x81, CHR 0x86, CHR 0xE3, CHR 0x81, CHR 0xA8,
     CHR 0xE3, CHR 0x81, CHR 0x99, CHR 0xE3, CHR 0x82, CHR 0x8B, CHR 0xE4, CHR 0xBA, CHR 0xBA,
     CHR 0xE9, CHR 0x96, CHR 0x93, CHR 0xE3, CHR 0x81, CHR 0xA0, CHR 0xE3, CHR 0x80, CHR 0x82]"

definition text_4 :: string where
  "text_4 =
    [
     CHR 0xE7, CHR 0xA7, CHR 0x81, CHR 0xE3, CHR 0x81, CHR 0xAF, CHR 0xE3, CHR 0x80, CHR 0x81,
     CHR 0xE3, CHR 0x81, CHR 0x84, CHR 0xE3, CHR 0x81, CHR 0xA4, CHR 0xE3, CHR 0x82, CHR 0x82,
     CHR 0xE5, CHR 0xBF, CHR 0x83, CHR 0xE9, CHR 0x85, CHR 0x8D, CHR 0xE4, CHR 0xBA, CHR 0x8B,
     CHR 0xE3, CHR 0x81, CHR 0x8C, CHR 0xE5, CHR 0xA4, CHR 0x9A, CHR 0xE3, CHR 0x81, CHR 0x8F,
     CHR 0xE3, CHR 0x80, CHR 0x81, CHR 0xE4, CHR 0xB8, CHR 0x8D, CHR 0xE5, CHR 0xAE, CHR 0x89,
     CHR 0xE3, CHR 0x81, CHR 0xAB, CHR 0xE3, CHR 0x81, CHR 0xAA, CHR 0xE3, CHR 0x82, CHR 0x8A,
     CHR 0xE3, CHR 0x82, CHR 0x84, CHR 0xE3, CHR 0x81, CHR 0x99, CHR 0xE3, CHR 0x81, CHR 0x8F,
     CHR 0xE3, CHR 0x80, CHR 0x81, CHR 0xE6, CHR 0xB0, CHR 0x97, CHR 0xE5, CHR 0x88, CHR 0x86,
     CHR 0xE3, CHR 0x81, CHR 0xAE, CHR 0xE6, CHR 0xB5, CHR 0xAE, CHR 0xE3, CHR 0x81, CHR 0x8D,
     CHR 0xE6, CHR 0xB2, CHR 0x88, CHR 0xE3, CHR 0x81, CHR 0xBF, CHR 0xE3, CHR 0x81, CHR 0x8C,
     CHR 0xE5, CHR 0xA4, CHR 0x9A, CHR 0xE3, CHR 0x81, CHR 0x84, CHR 0xE4, CHR 0xBA, CHR 0xBA,
     CHR 0xE9, CHR 0x96, CHR 0x93, CHR 0xE3, CHR 0x81, CHR 0xA0, CHR 0xE3, CHR 0x80, CHR 0x82]"

definition text_5 :: string where
  "text_5 =
    [
     CHR 0xE7, CHR 0xA7, CHR 0x81, CHR 0xE3, CHR 0x81, CHR 0xAF, CHR 0xE3, CHR 0x80, CHR 0x81,
     CHR 0xE7, CHR 0x9F, CHR 0xA5, CHR 0xE7, CHR 0x9A, CHR 0x84, CHR 0xE3, CHR 0x81, CHR 0xAA,
     CHR 0xE6, CHR 0xB4, CHR 0xBB, CHR 0xE5, CHR 0x8B, CHR 0x95, CHR 0xE3, CHR 0x81, CHR 0x8C,
     CHR 0xE5, CHR 0xBE, CHR 0x97, CHR 0xE6, CHR 0x84, CHR 0x8F, CHR 0xE3, CHR 0x81, CHR 0xA7,
     CHR 0xE3, CHR 0x80, CHR 0x81, CHR 0xE5, CHR 0x89, CHR 0xB5, CHR 0xE9, CHR 0x80, CHR 0xA0,
     CHR 0xE6, CHR 0x80, CHR 0xA7, CHR 0xE3, CHR 0x81, CHR 0x8C, CHR 0xE9, CHR 0xAB, CHR 0x98,
     CHR 0xE3, CHR 0x81, CHR 0x8F, CHR 0xE3, CHR 0x81, CHR 0xA6, CHR 0xE5, CHR 0xA5, CHR 0xBD,
     CHR 0xE5, CHR 0xA5, CHR 0x87, CHR 0xE5, CHR 0xBF, CHR 0x83, CHR 0xE3, CHR 0x81, CHR 0x8C,
     CHR 0xE3, CHR 0x81, CHR 0x82, CHR 0xE3, CHR 0x82, CHR 0x8A, CHR 0xE3, CHR 0x80, CHR 0x81,
     CHR 0xE6, CHR 0x96, CHR 0xB0, CHR 0xE3, CHR 0x81, CHR 0x9F, CHR 0xE3, CHR 0x81, CHR 0xAA,
     CHR 0xE3, CHR 0x81, CHR 0x93, CHR 0xE3, CHR 0x81, CHR 0xA8, CHR 0xE3, CHR 0x82, CHR 0x92,
     CHR 0xE6, CHR 0x8E, CHR 0xA2, CHR 0xE6, CHR 0xB1, CHR 0x82, CHR 0xE3, CHR 0x81, CHR 0x99,
     CHR 0xE3, CHR 0x82, CHR 0x8B, CHR 0xE4, CHR 0xBA, CHR 0xBA, CHR 0xE9, CHR 0x96, CHR 0x93,
     CHR 0xE3, CHR 0x81, CHR 0xA0, CHR 0xE3, CHR 0x80, CHR 0x82]"

definition text_6 :: string where
  "text_6 =
    [
     CHR 0xE7, CHR 0xA7, CHR 0x81, CHR 0xE3, CHR 0x81, CHR 0xAF, CHR 0xE3, CHR 0x80, CHR 0x81,
     CHR 0xE6, CHR 0x81, CHR 0xA5, CHR 0xE3, CHR 0x81, CHR 0x9A, CHR 0xE3, CHR 0x81, CHR 0x8B,
     CHR 0xE3, CHR 0x81, CHR 0x97, CHR 0xE3, CHR 0x81, CHR 0x8C, CHR 0xE3, CHR 0x82, CHR 0x8A,
     CHR 0xE5, CHR 0xB1, CHR 0x8B, CHR 0xE3, CHR 0x81, CHR 0xA7, CHR 0xE3, CHR 0x80, CHR 0x81,
     CHR 0xE7, CHR 0x89, CHR 0xA9, CHR 0xE9, CHR 0x9D, CHR 0x99, CHR 0xE3, CHR 0x81, CHR 0x8B,
     CHR 0xE3, CHR 0x81, CHR 0xA7, CHR 0xE3, CHR 0x80, CHR 0x81, CHR 0xE4, CHR 0xBA, CHR 0xBA,
     CHR 0xE3, CHR 0x81, CHR 0x8C, CHR 0xE5, CHR 0xA4, CHR 0x9A, CHR 0xE3, CHR 0x81, CHR 0x84,
     CHR 0xE3, CHR 0x83, CHR 0x91, CHR 0xE3, CHR 0x83, CHR 0xBC, CHR 0xE3, CHR 0x83, CHR 0x86,
     CHR 0xE3, CHR 0x82, CHR 0xA3, CHR 0xE3, CHR 0x81, CHR 0xAA, CHR 0xE3, CHR 0x81, CHR 0xA9,
     CHR 0xE3, CHR 0x81, CHR 0xAF, CHR 0xE8, CHR 0x8B, CHR 0xA6, CHR 0xE6, CHR 0x89, CHR 0x8B,
     CHR 0xE3, CHR 0x81, CHR 0xAA, CHR 0xE4, CHR 0xBA, CHR 0xBA, CHR 0xE9, CHR 0x96, CHR 0x93,
     CHR 0xE3, CHR 0x81, CHR 0xA0, CHR 0xE3, CHR 0x80, CHR 0x82]"

definition text_7 :: string where
  "text_7 =
    [
     CHR 0xE7, CHR 0xA7, CHR 0x81, CHR 0xE3, CHR 0x81, CHR 0xAF, CHR 0xE3, CHR 0x80, CHR 0x81,
     CHR 0xE3, CHR 0x81, CHR 0x99, CHR 0xE3, CHR 0x81, CHR 0x90, CHR 0xE6, CHR 0x80, CHR 0x9D,
     CHR 0xE3, CHR 0x81, CHR 0xA3, CHR 0xE3, CHR 0x81, CHR 0x9F, CHR 0xE3, CHR 0x81, CHR 0x93,
     CHR 0xE3, CHR 0x81, CHR 0xA8, CHR 0xE3, CHR 0x82, CHR 0x92, CHR 0xE5, CHR 0x8F, CHR 0xA3,
     CHR 0xE3, CHR 0x81, CHR 0xAB, CHR 0xE3, CHR 0x81, CHR 0x97, CHR 0xE3, CHR 0x80, CHR 0x81,
     CHR 0xE5, CHR 0x86, CHR 0xB7, CHR 0xE6, CHR 0xB7, CHR 0xA1, CHR 0xE3, CHR 0x81, CHR 0xAA,
     CHR 0xE9, CHR 0x9D, CHR 0xA2, CHR 0xE3, CHR 0x81, CHR 0x8C, CHR 0xE3, CHR 0x81, CHR 0x82,
     CHR 0xE3, CHR 0x82, CHR 0x8A, CHR 0xE3, CHR 0x80, CHR 0x81, CHR 0xE4, CHR 0xBB, CHR 0x96,
     CHR 0xE4, CHR 0xBA, CHR 0xBA, CHR 0xE3, CHR 0x81, CHR 0xAB, CHR 0xE5, CHR 0x90, CHR 0x8C,
     CHR 0xE6, CHR 0x83, CHR 0x85, CHR 0xE3, CHR 0x82, CHR 0x92, CHR 0xE6, CHR 0x84, CHR 0x9F,
     CHR 0xE3, CHR 0x81, CHR 0x98, CHR 0xE3, CHR 0x82, CHR 0x8B, CHR 0xE3, CHR 0x81, CHR 0x93,
     CHR 0xE3, CHR 0x81, CHR 0xA8, CHR 0xE3, CHR 0x81, CHR 0xAF, CHR 0xE3, CHR 0x82, CHR 0x81,
     CHR 0xE3, CHR 0x81, CHR 0xA3, CHR 0xE3, CHR 0x81, CHR 0x9F, CHR 0xE3, CHR 0x81, CHR 0xAB,
     CHR 0xE3, CHR 0x81, CHR 0xAA, CHR 0xE3, CHR 0x81, CHR 0x84, CHR 0xE4, CHR 0xBA, CHR 0xBA,
     CHR 0xE9, CHR 0x96, CHR 0x93, CHR 0xE3, CHR 0x81, CHR 0xA0, CHR 0xE3, CHR 0x80, CHR 0x82]"

definition text_8 :: string where
  "text_8 =
    [
     CHR 0xE7, CHR 0xA7, CHR 0x81, CHR 0xE3, CHR 0x81, CHR 0xAF, CHR 0xE3, CHR 0x80, CHR 0x81,
     CHR 0xE3, CHR 0x81, CHR 0x82, CHR 0xE3, CHR 0x81, CHR 0xBE, CHR 0xE3, CHR 0x82, CHR 0x8A,
     CHR 0xE8, CHR 0x80, CHR 0x83, CHR 0xE3, CHR 0x81, CHR 0x88, CHR 0xE3, CHR 0x81, CHR 0x9A,
     CHR 0xE3, CHR 0x81, CHR 0xAB, CHR 0xE8, CHR 0xA1, CHR 0x8C, CHR 0xE5, CHR 0x8B, CHR 0x95,
     CHR 0xE3, CHR 0x81, CHR 0x97, CHR 0xE3, CHR 0x80, CHR 0x81, CHR 0xE3, CHR 0x81, CHR 0x95,
     CHR 0xE3, CHR 0x81, CHR 0xBB, CHR 0xE3, CHR 0x81, CHR 0xA9, CHR 0xE3, CHR 0x81, CHR 0x8D,
     CHR 0xE3, CHR 0x81, CHR 0xA3, CHR 0xE3, CHR 0x81, CHR 0xA1, CHR 0xE3, CHR 0x82, CHR 0x8A,
     CHR 0xE3, CHR 0x81, CHR 0xAF, CHR 0xE8, CHR 0xA1, CHR 0x8C, CHR 0xE5, CHR 0x8B, CHR 0x95,
     CHR 0xE3, CHR 0x81, CHR 0x9B, CHR 0xE3, CHR 0x81, CHR 0x9A, CHR 0xE3, CHR 0x80, CHR 0x81,
     CHR 0xE3, CHR 0x82, CHR 0xAE, CHR 0xE3, CHR 0x83, CHR 0xAA, CHR 0xE3, CHR 0x82, CHR 0xAE,
     CHR 0xE3, CHR 0x83, CHR 0xAA, CHR 0xE3, CHR 0x81, CHR 0xBE, CHR 0xE3, CHR 0x81, CHR 0xA7,
     CHR 0xE7, CHR 0x89, CHR 0xA9, CHR 0xE4, CHR 0xBA, CHR 0x8B, CHR 0xE3, CHR 0x81, CHR 0xAB,
     CHR 0xE6, CHR 0x89, CHR 0x8B, CHR 0xE3, CHR 0x82, CHR 0x92, CHR 0xE4, CHR 0xBB, CHR 0x98,
     CHR 0xE3, CHR 0x81, CHR 0x91, CHR 0xE3, CHR 0x81, CHR 0xAA, CHR 0xE3, CHR 0x81, CHR 0x84,
     CHR 0xE4, CHR 0xBA, CHR 0xBA, CHR 0xE9, CHR 0x96, CHR 0x93, CHR 0xE3, CHR 0x81, CHR 0xA0,
     CHR 0xE3, CHR 0x80, CHR 0x82]"

definition text_9 :: string where
  "text_9 =
    [
     CHR 0xE7, CHR 0xA7, CHR 0x81, CHR 0xE3, CHR 0x81, CHR 0xAF, CHR 0xE3, CHR 0x80, CHR 0x81,
     CHR 0xE3, CHR 0x81, CHR 0x9F, CHR 0xE3, CHR 0x81, CHR 0x84, CHR 0xE3, CHR 0x81, CHR 0xA6,
     CHR 0xE3, CHR 0x81, CHR 0x84, CHR 0xE3, CHR 0x83, CHR 0xAA, CHR 0xE3, CHR 0x83, CHR 0xA9,
     CHR 0xE3, CHR 0x83, CHR 0x83, CHR 0xE3, CHR 0x82, CHR 0xAF, CHR 0xE3, CHR 0x82, CHR 0xB9,
     CHR 0xE3, CHR 0x81, CHR 0x97, CHR 0xE3, CHR 0x81, CHR 0xA6, CHR 0xE3, CHR 0x81, CHR 0x8A,
     CHR 0xE3, CHR 0x82, CHR 0x8A, CHR 0xE3, CHR 0x80, CHR 0x81, CHR 0xE8, CHR 0x90, CHR 0xBD,
     CHR 0xE3, CHR 0x81, CHR 0xA1, CHR 0xE7, CHR 0x9D, CHR 0x80, CHR 0xE3, CHR 0x81, CHR 0x8D,
     CHR 0xE3, CHR 0x81, CHR 0x8C, CHR 0xE3, CHR 0x81, CHR 0x82, CHR 0xE3, CHR 0x82, CHR 0x8A,
     CHR 0xE3, CHR 0x80, CHR 0x81, CHR 0xE3, CHR 0x82, CHR 0x81, CHR 0xE3, CHR 0x81, CHR 0xA3,
     CHR 0xE3, CHR 0x81, CHR 0x9F, CHR 0xE3, CHR 0x81, CHR 0xAB, CHR 0xE5, CHR 0x95, CHR 0x8F,
     CHR 0xE9, CHR 0xA1, CHR 0x8C, CHR 0xE3, CHR 0x81, CHR 0xAB, CHR 0xE3, CHR 0x81, CHR 0xA4,
     CHR 0xE3, CHR 0x81, CHR 0x84, CHR 0xE3, CHR 0x81, CHR 0xA6, CHR 0xE6, CHR 0x82, CHR 0xA9,
     CHR 0xE3, CHR 0x81, CHR 0xBE, CHR 0xE3, CHR 0x81, CHR 0xAA, CHR 0xE3, CHR 0x81, CHR 0x84,
     CHR 0xE4, CHR 0xBA, CHR 0xBA, CHR 0xE9, CHR 0x96, CHR 0x93, CHR 0xE3, CHR 0x81, CHR 0xA0,
     CHR 0xE3, CHR 0x80, CHR 0x82]"

definition text_10 :: string where
  "text_10 =
    [
     CHR 0xE7, CHR 0xA7, CHR 0x81, CHR 0xE3, CHR 0x81, CHR 0xAF, CHR 0xE3, CHR 0x80, CHR 0x81,
     CHR 0xE7, CHR 0x89, CHR 0xA9, CHR 0xE4, CHR 0xBA, CHR 0x8B, CHR 0xE3, CHR 0x82, CHR 0x92,
     CHR 0xE7, CHR 0x8F, CHR 0xBE, CHR 0xE5, CHR 0xAE, CHR 0x9F, CHR 0xE7, CHR 0x9A, CHR 0x84,
     CHR 0xE3, CHR 0x81, CHR 0xAB, CHR 0xE8, CHR 0x80, CHR 0x83, CHR 0xE3, CHR 0x81, CHR 0x88,
     CHR 0xE3, CHR 0x80, CHR 0x81, CHR 0xE4, CHR 0xBC, CHR 0x9D, CHR 0xE7, CHR 0xB5, CHR 0xB1,
     CHR 0xE7, CHR 0x9A, CHR 0x84, CHR 0xE3, CHR 0x81, CHR 0xAA, CHR 0xE8, CHR 0x80, CHR 0x83,
     CHR 0xE3, CHR 0x81, CHR 0x88, CHR 0xE6, CHR 0x96, CHR 0xB9, CHR 0xE3, CHR 0x82, CHR 0x92,
     CHR 0xE5, CHR 0xA5, CHR 0xBD, CHR 0xE3, CHR 0x81, CHR 0xBF, CHR 0xE3, CHR 0x80, CHR 0x81,
     CHR 0xE3, CHR 0x82, CHR 0x81, CHR 0xE3, CHR 0x81, CHR 0xA3, CHR 0xE3, CHR 0x81, CHR 0x9F,
     CHR 0xE3, CHR 0x81, CHR 0xAB, CHR 0xE7, CHR 0xA9, CHR 0xBA, CHR 0xE6, CHR 0x83, CHR 0xB3,
     CHR 0xE3, CHR 0x81, CHR 0xAA, CHR 0xE3, CHR 0x81, CHR 0xA9, CHR 0xE3, CHR 0x81, CHR 0xA7,
     CHR 0xE6, CHR 0x99, CHR 0x82, CHR 0xE9, CHR 0x96, CHR 0x93, CHR 0xE3, CHR 0x82, CHR 0x92,
     CHR 0xE6, CHR 0xB5, CHR 0xAA, CHR 0xE8, CHR 0xB2, CHR 0xBB, CHR 0xE3, CHR 0x81, CHR 0x97,
     CHR 0xE3, CHR 0x81, CHR 0xAA, CHR 0xE3, CHR 0x81, CHR 0x84, CHR 0xE4, CHR 0xBA, CHR 0xBA,
     CHR 0xE9, CHR 0x96, CHR 0x93, CHR 0xE3, CHR 0x81, CHR 0xA0, CHR 0xE3, CHR 0x80, CHR 0x82]"

text \<open>\<^verbatim>\<open>export const QUESTIONS: Question[]\<close>, in source order.\<close>

definition QUESTIONS :: "Question list" where
  "QUESTIONS =
    [\<lparr>qid = 1, qtext = text_1, trait = TraitE, isPositive = True\<rparr>,
     \<lparr>qid = 2, qtext = text_2, trait = TraitA, isPositive = True\<rparr>,
     \<lparr>qid = 3, qtext = text_3, trait = TraitC, isPositive = True\<rparr>,
     \<lparr>qid = 4, qtext = text_4, trait = TraitN, isPositive = True\<rparr>,
     \<lparr>qid = 5, qtext = text_5, trait = TraitO, isPositive = True\<rparr>,
     \<lparr>qid = 6, qtext = text_6, trait = TraitE, isPositive = False\<rparr>,
     \<lparr>qid = 7, qtext = text_7, trait = TraitA, isPositive = False\<rparr>,
     \<lparr>qid = 8, qtext = text_8, trait = TraitC, isPositive = False\<rparr>,
     \<lparr>qid = 9, qtext = text_9, trait = TraitN, isPositive = False\<rparr>,
     \<lparr>qid = 10, qtext = text_10, trait = TraitO, isPositive = False\<rparr>]"

section \<open>Scorer (the \<^verbatim>\<open>scores\<close> memo of the \<^verbatim>\<open>App\<close> component)\<close>

text \<open>
  The answers object \<^verbatim>\<open>Record<number, number>\<close>: a finite map from question id to raw
  answer. \<^verbatim>\<open>Object.keys(answers).length\<close> is the number of its keys, and reading a
  missing key gives \<^verbatim>\<open>undefined\<close> (\<open>None\<close>).
\<close>

type_synonym Answers = "(int, int) fmap"

datatype js_error = TypeError | ApiError | SyntaxError

text \<open>
  \<^verbatim>\<open>(posVal + (4 - negVal)) / 2\<close> on two property reads: \<^verbatim>\<open>undefined\<close> in either
  operand makes the result \<^verbatim>\<open>NaN\<close>.
\<close>

fun reflect_average :: "int option \<Rightarrow> int option \<Rightarrow> jsnumber" where
  "reflect_average (Some posVal) (Some negVal) =
     Num ((of_int posVal + (4 - of_int negVal)) / 2)"
| "reflect_average _ _ = NaN"

text \<open>
  \<^verbatim>\<open>calculateTrait\<close>: \<^verbatim>\<open>QUESTIONS.find(...)!\<close> twice, then the two reads and the
  average. The \<^verbatim>\<open>!\<close> is a compile-time assertion only: were \<^verbatim>\<open>find\<close> to return
  \<^verbatim>\<open>undefined\<close>, reading \<^verbatim>\<open>.id\<close> would throw a \<^verbatim>\<open>TypeError\<close>.
\<close>

definition calculateTrait :: "Answers \<Rightarrow> trait \<Rightarrow> js_error + jsnumber" where
  "calculateTrait answers t =
     (case find (\<lambda>q. trait q = t \<and> isPositive q) QUESTIONS of
        None \<Rightarrow> Inl TypeError
      | Some posQ \<Rightarrow>
          (case find (\<lambda>q. trait q = t \<and> \<not> isPositive q) QUESTIONS of
             None \<Rightarrow> Inl TypeError
           | Some negQ \<Rightarrow>
               Inr (reflect_average (fmlookup answers (qid posQ))
                                    (fmlookup answers (qid negQ)))))"

text \<open>
  The memo \<^verbatim>\<open>scores\<close>: \<^verbatim>\<open>null\<close> (\<open>Inr None\<close>) while the answers object has fewer
  than 10 keys, else the record of the five traits, computed in the order E, A, C, N, O.
\<close>

definition scores :: "Answers \<Rightarrow> js_error + Scores option" where
  "scores answers =
     (if fcard (fmdom answers) < 10 then Inr None
      else
        (case calculateTrait answers TraitE of Inl x \<Rightarrow> Inl x | Inr e \<Rightarrow>
        (case calculateTrait answers TraitA of Inl x \<Rightarrow> Inl x | Inr a \<Rightarrow>
        (case calculateTrait answers TraitC of Inl x \<Rightarrow> Inl x | Inr c \<Rightarrow>
        (case calculateTrait answers TraitN of Inl x \<Rightarrow> Inl x | Inr n \<Rightarrow>
        (case calculateTrait answers TraitO of Inl x \<Rightarrow> Inl x | Inr o' \<Rightarrow>
           Inr (Some \<lparr>score_E = e, score_A = a, score_C = c,
                      score_N = n, score_O = o'\<rparr>)))))))"

text \<open>\<^verbatim>\<open>allAnswered\<close>: \<^verbatim>\<open>Object.keys(answers).length === QUESTIONS.length\<close>.\<close>

definition allAnswered :: "Answers \<Rightarrow> bool" where
  "allAnswered answers \<longleftrightarrow> fcard (fmdom answers) = length QUESTIONS"

section \<open>Session state (the state of the \<^verbatim>\<open>App\<close> component)\<close>

text \<open>
  A value as \<^verbatim>\<open>JSON.parse\<close> returns it. The \<^verbatim>\<open>AnalysisResult\<close> interface is erased at
  run time, so the \<^verbatim>\<open>analysis\<close> state holds whatever value was parsed; \<open>JNull\<close> is
  \<^verbatim>\<open>null\<close>, the initial value.
\<close>

datatype json =
    JNull
  | JBool bool
  | JNum rat
  | JStr string
  | JArr "json list"
  | JObj "(string \<times> json) list"

text \<open>Property read \<^verbatim>\<open>value.name\<close> as the results view does it; \<open>None\<close> is \<^verbatim>\<open>undefined\<close>.\<close>

fun field_of :: "json \<Rightarrow> string \<Rightarrow> json option" where
  "field_of (JObj props) name = map_of props name"
| "field_of _ name = None"

text \<open>
  The \<^verbatim>\<open>useState\<close> cells of \<^verbatim>\<open>App\<close>. (\<^verbatim>\<open>triviaIndex\<close>, which only selects the text
  shown on the loading panel, is left out.) Every handler is taken to run to completion,
  with its state updates applied, before the next event is handled.
\<close>

record Session =
  answers :: Answers
  isAnalyzing :: bool
  analysis :: json
  error :: "string option"
  showResults :: bool

definition initial_session :: Session where
  "initial_session =
     \<lparr>answers = fmempty, isAnalyzing = False, analysis = JNull,
      error = None, showResults = False\<rparr>"

text \<open>\<^verbatim>\<open>handleAnswer\<close>: \<^verbatim>\<open>setAnswers(prev => ({ ...prev, [questionId]: value }))\<close>.\<close>

definition handleAnswer :: "Session \<Rightarrow> int \<Rightarrow> int \<Rightarrow> Session" where
  "handleAnswer s questionId v = s\<lparr>answers := fmupd questionId v (answers s)\<rparr>"

text \<open>The message passed to \<^verbatim>\<open>setError\<close> in the \<^verbatim>\<open>catch\<close> block, as UTF-8 bytes.\<close>

definition ERROR_MESSAGE :: string where
  "ERROR_MESSAGE =
    [
     CHR 0xE5, CHR 0x88, CHR 0x86, CHR 0xE6, CHR 0x9E, CHR 0x90, CHR 0xE4, CHR 0xB8, CHR 0xAD,
     CHR 0xE3, CHR 0x81, CHR 0xAB, CHR 0xE3, CHR 0x82, CHR 0xA8, CHR 0xE3, CHR 0x83, CHR 0xA9,
     CHR 0xE3, CHR 0x83, CHR 0xBC, CHR 0xE3, CHR 0x81, CHR 0x8C, CHR 0xE7, CHR 0x99, CHR 0xBA,
     CHR 0xE7, CHR 0x94, CHR 0x9F, CHR 0xE3, CHR 0x81, CHR 0x97, CHR 0xE3, CHR 0x81, CHR 0xBE,
     CHR 0xE3, CHR 0x81, CHR 0x97, CHR 0xE3, CHR 0x81, CHR 0x9F, CHR 0xE3, CHR 0x80, CHR 0x82,
     CHR 0xE3, CHR 0x82, CHR 0x82, CHR 0xE3, CHR 0x81, CHR 0x86, CHR 0xE4, CHR 0xB8, CHR 0x80,
     CHR 0xE5, CHR 0xBA, CHR 0xA6, CHR 0xE3, CHR 0x81, CHR 0x8A, CHR 0xE8, CHR 0xA9, CHR 0xA6,
     CHR 0xE3, CHR 0x81, CHR 0x97, CHR 0xE3, CHR 0x81, CHR 0x8F, CHR 0xE3, CHR 0x81, CHR 0xA0,
     CHR 0xE3, CHR 0x81, CHR 0x95, CHR 0xE3, CHR 0x81, CHR 0x84, CHR 0xE3, CHR 0x80, CHR 0x82]"

text \<open>
  \<^verbatim>\<open>runAnalysis\<close> up to its \<^verbatim>\<open>await\<close>: return at once when \<^verbatim>\<open>scores\<close> is
  \<^verbatim>\<open>null\<close>; otherwise set \<^verbatim>\<open>isAnalyzing\<close>, clear \<^verbatim>\<open>error\<close> and call
  \<^verbatim>\<open>ai.models.generateContent\<close>. The second component is the call issued, if any,
  given by the scores that its prompt is built from. There is no test of
  \<^verbatim>\<open>isAnalyzing\<close> in the function. (The memo cannot have thrown, see
  \<open>calculateTrait_returns\<close> below; the default case covers \<^verbatim>\<open>null\<close>.)
\<close>

definition runAnalysis :: "Session \<Rightarrow> Session \<times> Scores option" where
  "runAnalysis s =
     (case scores (answers s) of
        Inr (Some sc) \<Rightarrow> (s\<lparr>isAnalyzing := True, error := None\<rparr>, Some sc)
      | _ \<Rightarrow> (s, None))"

text \<open>
  How the awaited call ends. It throws (\<open>Rejected\<close>, with the exception's detail, which
  is only logged), or returns a response. The response text is represented by what the
  \<^verbatim>\<open>try\<close> block makes of it: \<^verbatim>\<open>response.text\<close> is empty or undefined (\<open>NoText\<close>), it
  is text that \<^verbatim>\<open>JSON.parse\<close> rejects (\<open>BadJson\<close>), or it is text that
  \<^verbatim>\<open>JSON.parse\<close> decodes to a value (\<open>Json\<close>).
\<close>

datatype response_text = NoText | BadJson | Json json

datatype outcome = Rejected string | Resolved response_text

text \<open>\<^verbatim>\<open>JSON.parse(response.text || '{}')\<close>.\<close>

fun parse_text :: "response_text \<Rightarrow> js_error + json" where
  "parse_text NoText = Inr (JObj [])"
| "parse_text BadJson = Inl SyntaxError"
| "parse_text (Json v) = Inr v"

text \<open>The \<^verbatim>\<open>try\<close> block after the \<^verbatim>\<open>await\<close>: parse, \<^verbatim>\<open>setAnalysis\<close>, \<^verbatim>\<open>setShowResults(true)\<close>.\<close>

fun try_block :: "Session \<Rightarrow> outcome \<Rightarrow> js_error + Session" where
  "try_block s (Rejected detail) = Inl ApiError"
| "try_block s (Resolved t) =
     (case parse_text t of
        Inl e \<Rightarrow> Inl e
      | Inr result \<Rightarrow> Inr (s\<lparr>analysis := result, showResults := True\<rparr>))"

text \<open>
  \<^verbatim>\<open>runAnalysis\<close> from its \<^verbatim>\<open>await\<close> on: the \<^verbatim>\<open>try\<close> block, the \<^verbatim>\<open>catch\<close> block
  (\<^verbatim>\<open>setError\<close> with the fixed message) and the \<^verbatim>\<open>finally\<close> block
  (\<^verbatim>\<open>setIsAnalyzing(false)\<close>). Scrolling and \<^verbatim>\<open>console.error\<close> leave the state
  alone.
\<close>

definition runAnalysis_settle :: "Session \<Rightarrow> outcome \<Rightarrow> Session" where
  "runAnalysis_settle s out =
     (let s' = (case try_block s out of
                  Inl err \<Rightarrow> s\<lparr>error := Some ERROR_MESSAGE\<rparr>
                | Inr s1 \<Rightarrow> s1)
      in s'\<lparr>isAnalyzing := False\<rparr>)"

text \<open>
  \<^verbatim>\<open>reset\<close>: \<^verbatim>\<open>setAnswers({})\<close>, \<^verbatim>\<open>setAnalysis(null)\<close>, \<^verbatim>\<open>setShowResults(false)\<close>,
  \<^verbatim>\<open>setError(null)\<close>. It does not call \<^verbatim>\<open>setIsAnalyzing\<close>.
\<close>

definition reset :: "Session \<Rightarrow> Session" where
  "reset s = s\<lparr>answers := fmempty, analysis := JNull, showResults := False, error := None\<rparr>"

section \<open>The rendered view and its events\<close>

text \<open>
  What \<^verbatim>\<open>App\<close> renders: the results view when \<^verbatim>\<open>showResults\<close>; otherwise the question
  list, followed by the loading panel when \<^verbatim>\<open>isAnalyzing\<close>, else by the analysis button,
  which is disabled unless \<^verbatim>\<open>allAnswered\<close>.
\<close>

datatype phase = Collecting | Ready | Analyzing | Displaying

definition phase :: "Session \<Rightarrow> phase" where
  "phase s =
     (if showResults s then Displaying
      else if isAnalyzing s then Analyzing
      else if allAnswered (answers s) then Ready
      else Collecting)"

text \<open>
  The events of a page: a click on option \<open>v\<close> of question \<open>q\<close>, a click on the analysis
  button, a click on the reset button, the end of an outstanding external call, and a
  render of the component.
\<close>

datatype event =
    ClickOption int int
  | ClickAnalyze
  | ClickReset
  | Response outcome
  | Render

text \<open>
  The clicks a view rendered from state \<open>s\<close> offers: the option buttons \<open>0..4\<close> of the
  catalog's questions while the question list is shown; the analysis button when it is
  rendered and enabled; the reset button on the results view. A response and a render
  are no clicks: \<open>step\<close> below says when they can happen.
\<close>

fun offered :: "Session \<Rightarrow> event \<Rightarrow> bool" where
  "offered s (ClickOption q v) \<longleftrightarrow>
     \<not> showResults s \<and> q \<in> set (map qid QUESTIONS) \<and> v \<in> {0, 1, 2, 3, 4}"
| "offered s ClickAnalyze \<longleftrightarrow>
     \<not> showResults s \<and> \<not> isAnalyzing s \<and> allAnswered (answers s)"
| "offered s ClickReset \<longleftrightarrow> showResults s"
| "offered s (Response out) \<longleftrightarrow> True"
| "offered s Render \<longleftrightarrow> True"

text \<open>
  A page: the component state, the state from which the view on screen was rendered, and
  the number of external calls that have not ended yet. A state update is rendered
  later; until then the buttons on screen, and the handlers with the values they closed
  over, are those of the last render. Nothing in the component says how soon a render
  follows an update, so a render is an event of its own that can come at any time.
\<close>

record World =
  session :: Session
  rendered :: Session
  inflight :: nat

definition initial_world :: World where
  "initial_world = \<lparr>session = initial_session, rendered = initial_session, inflight = 0\<rparr>"

text \<open>
  \<^verbatim>\<open>runAnalysis\<close> as the handler that the render of state \<open>r\<close> created, run when the
  state is \<open>s\<close>: \<^verbatim>\<open>scores\<close> is the memo of that render, the setters act on the state
  as it is. With \<open>r = s\<close> it is \<open>runAnalysis s\<close>.
\<close>

definition runAnalysis_in :: "Session \<Rightarrow> Session \<Rightarrow> Session \<times> Scores option" where
  "runAnalysis_in r s =
     (case scores (answers r) of
        Inr (Some sc) \<Rightarrow> (s\<lparr>isAnalyzing := True, error := None\<rparr>, Some sc)
      | _ \<Rightarrow> (s, None))"

text \<open>A call of the rendered \<^verbatim>\<open>runAnalysis\<close>, counting the external call it issues.\<close>

definition call_runAnalysis :: "World \<Rightarrow> World" where
  "call_runAnalysis w =
     (case runAnalysis_in (rendered w) (session w) of
        (s', None) \<Rightarrow> w\<lparr>session := s'\<rparr>
      | (s', Some request) \<Rightarrow> w\<lparr>session := s', inflight := Suc (inflight w)\<rparr>)"

text \<open>
  One event on the page. A click is possible only where the view on screen offers it;
  its handler updates the state (\<^verbatim>\<open>handleAnswer\<close> by a function of the previous
  answers, \<^verbatim>\<open>reset\<close> and the continuation of \<^verbatim>\<open>runAnalysis\<close> by fixed values). A
  response is possible only while a call is outstanding. A render brings the view up
  to date. \<open>None\<close>: the event cannot happen.
\<close>

fun step :: "World \<Rightarrow> event \<Rightarrow> World option" where
  "step w (ClickOption q v) =
     (if offered (rendered w) (ClickOption q v)
      then Some (w\<lparr>session := handleAnswer (session w) q v\<rparr>) else None)"
| "step w ClickAnalyze =
     (if offered (rendered w) ClickAnalyze then Some (call_runAnalysis w) else None)"
| "step w ClickReset =
     (if offered (rendered w) ClickReset
      then Some (w\<lparr>session := reset (session w)\<rparr>) else None)"
| "step w (Response out) =
     (if 0 < inflight w
      then Some (w\<lparr>session := runAnalysis_settle (session w) out,
                   inflight := inflight w - 1\<rparr>)
      else None)"
| "step w Render = Some (w\<lparr>rendered := session w\<rparr>)"

fun run :: "World \<Rightarrow> event list \<Rightarrow> World option" where
  "run w [] = Some w"
| "run w (e # es) = (case step w e of None \<Rightarrow> None | Some w' \<Rightarrow> run w' es)"

text \<open>A sequence of events with a render before each of them.\<close>

fun refreshed :: "event list \<Rightarrow> event list" where
  "refreshed [] = []"
| "refreshed (e # es) = Render # e # refreshed es"

text \<open>The answers of the all-positive scenario, and the session that holds them.\<close>

definition scenario_answers :: Answers where
  "scenario_answers =
     fmap_of_list [(1, 4), (2, 4), (3, 4), (4, 0), (5, 4), (6, 0), (7, 0), (8, 0), (9, 0), (10, 0)]"

definition scenario_session :: Session where
  "scenario_session = initial_session\<lparr>answers := scenario_answers\<rparr>"

text \<open>The identifiers of the catalog's questions.\<close>

definition question_ids :: "int fset" where
  "question_ids = fset_of_list (map qid QUESTIONS)"

text \<open>The scenario with the answer to question 10 still missing.\<close>

definition nine_answered :: Session where
  "nine_answered =
     initial_session\<lparr>answers :=
       fmap_of_list [(1, 4), (2, 4), (3, 4), (4, 0), (5, 4), (6, 0), (7, 0), (8, 0), (9, 0)]\<rparr>"

text \<open>A decoded response object that has no \<^verbatim>\<open>jobs\<close> property.\<close>

definition payload_without_jobs :: json where
  "payload_without_jobs =
     JObj [(''nickname'', JStr ''n''), (''traits'', JStr ''t''), (''partner'', JStr ''p'')]"

text \<open>A decoded response object with the four properties of \<^verbatim>\<open>AnalysisResult\<close>.\<close>

definition payload_complete :: json where
  "payload_complete =
     JObj [(''nickname'', JStr ''n''), (''traits'', JStr ''t''), (''jobs'', JStr ''j''),
           (''partner'', JStr ''p'')]"

text \<open>The scenario session, rendered, with no call outstanding.\<close>

definition scenario_world :: World where
  "scenario_world = \<lparr>session = scenario_session, rendered = scenario_session, inflight = 0\<rparr>"

text \<open>
  Sequences of events on a fresh page. The ten option clicks of the scenario; these
  followed by a click on the analysis button; followed also by a response. Then, with
  renders only where written: the option clicks, a render and two clicks on the analysis
  button; and a longer sequence that ends with the results view rendered.
\<close>

definition scenario_options :: "event list" where
  "scenario_options =
     [ClickOption 1 4, ClickOption 2 4, ClickOption 3 4, ClickOption 4 0, ClickOption 5 4,
      ClickOption 6 0, ClickOption 7 0, ClickOption 8 0, ClickOption 9 0, ClickOption 10 0]"

definition scenario_clicks :: "event list" where
  "scenario_clicks = scenario_options @ [ClickAnalyze]"

definition scenario_to_results :: "event list" where
  "scenario_to_results = scenario_clicks @ [Response (Resolved (Json payload_complete))]"

definition double_click :: "event list" where
  "double_click = scenario_options @ [Render, ClickAnalyze, ClickAnalyze]"

definition results_during_flight :: "event list" where
  "results_during_flight =
     double_click
     @ [Render, Response (Rejected ''network''),
        Render, Response (Resolved (Json payload_complete)),
        ClickAnalyze,
        Render]"

text \<open>
  Two properties of a page and its outstanding calls: the in-flight flag is set exactly
  when one call is outstanding, and none otherwise; and the flag is not set while the
  results are to be shown.
\<close>

definition single_flight :: "World \<Rightarrow> bool" where
  "single_flight w \<longleftrightarrow> inflight w = (if isAnalyzing (session w) then 1 else 0)"

definition results_idle :: "World \<Rightarrow> bool" where
  "results_idle w \<longleftrightarrow> \<not> (showResults (session w) \<and> isAnalyzing (session w))"

section \<open>Facts about the catalog and the scorer\<close>

lemma find_positive:
  "q \<in> set QUESTIONS \<Longrightarrow> trait q = T \<Longrightarrow> isPositive q \<Longrightarrow>
   find (\<lambda>q. trait q = T \<and> isPositive q) QUESTIONS = Some q"
  by (auto simp: QUESTIONS_def)

lemma find_negative:
  "q \<in> set QUESTIONS \<Longrightarrow> trait q = T \<Longrightarrow> \<not> isPositive q \<Longrightarrow>
   find (\<lambda>q. trait q = T \<and> \<not> isPositive q) QUESTIONS = Some q"
  by (auto simp: QUESTIONS_def)

lemma calculateTrait_returns: "\<exists>r. calculateTrait a T = Inr r"
  by (cases T) (simp_all add: calculateTrait_def QUESTIONS_def)

lemma scores_null_iff: "scores a = Inr None \<longleftrightarrow> fcard (fmdom a) < 10"
proof -
  obtain e where e: "calculateTrait a TraitE = Inr e" using calculateTrait_returns by blast
  obtain b where b: "calculateTrait a TraitA = Inr b" using calculateTrait_returns by blast
  obtain c where c: "calculateTrait a TraitC = Inr c" using calculateTrait_returns by blast
  obtain n where n: "calculateTrait a TraitN = Inr n" using calculateTrait_returns by blast
  obtain o' where o: "calculateTrait a TraitO = Inr o'" using calculateTrait_returns by blast
  show ?thesis by (simp add: scores_def e b c n o)
qed

lemma scores_defined:
  assumes "\<not> fcard (fmdom a) < 10"
  shows "\<exists>sc. scores a = Inr (Some sc)"
proof -
  obtain e where e: "calculateTrait a TraitE = Inr e" using calculateTrait_returns by blast
  obtain b where b: "calculateTrait a TraitA = Inr b" using calculateTrait_returns by blast
  obtain c where c: "calculateTrait a TraitC = Inr c" using calculateTrait_returns by blast
  obtain n where n: "calculateTrait a TraitN = Inr n" using calculateTrait_returns by blast
  obtain o' where o: "calculateTrait a TraitO = Inr o'" using calculateTrait_returns by blast
  show ?thesis using assms by (simp add: scores_def e b c n o)
qed

lemma scores_fields:
  assumes "scores a = Inr (Some sc)"
  shows "calculateTrait a T = Inr (score_of sc T)"
proof -
  obtain e where e: "calculateTrait a TraitE = Inr e" using calculateTrait_returns by blast
  obtain b where b: "calculateTrait a TraitA = Inr b" using calculateTrait_returns by blast
  obtain c where c: "calculateTrait a TraitC = Inr c" using calculateTrait_returns by blast
  obtain n where n: "calculateTrait a TraitN = Inr n" using calculateTrait_returns by blast
  obtain o' where o: "calculateTrait a TraitO = Inr o'" using calculateTrait_returns by blast
  from assms have "sc = \<lparr>score_E = e, score_A = b, score_C = c, score_N = n, score_O = o'\<rparr>"
    by (simp add: scores_def e b c n o split: if_splits)
  then show ?thesis by (cases T) (simp_all add: e b c n o)
qed

lemma fcard_question_ids: "fcard question_ids = 10"
  by (simp add: question_ids_def QUESTIONS_def fcard_finsert_if)

lemma scores_of_scenario:
  "scores scenario_answers =
     Inr (Some \<lparr>score_E = Num 4, score_A = Num 4, score_C = Num 4,
                score_N = Num 2, score_O = Num 4\<rparr>)"
  by (simp add: scores_def scenario_answers_def calculateTrait_def QUESTIONS_def fcard_finsert_if)

section \<open>Facts about the handlers\<close>

lemma runAnalysis_scenario:
  "runAnalysis scenario_session =
     (scenario_session\<lparr>isAnalyzing := True, error := None\<rparr>,
      Some \<lparr>score_E = Num 4, score_A = Num 4, score_C = Num 4,
            score_N = Num 2, score_O = Num 4\<rparr>)"
  by (simp add: runAnalysis_def scenario_session_def scores_of_scenario)

lemma in_flight_scenario:
  "fst (runAnalysis scenario_session) =
     \<lparr>answers = scenario_answers, isAnalyzing = True, analysis = JNull,
      error = None, showResults = False\<rparr>"
  by (simp add: runAnalysis_scenario) (simp add: scenario_session_def initial_session_def)

lemma runAnalysis_in_same: "runAnalysis_in s s = runAnalysis s"
  by (simp add: runAnalysis_in_def runAnalysis_def)

lemma call_runAnalysis_scenario:
  "call_runAnalysis scenario_world =
     \<lparr>session = \<lparr>answers = scenario_answers, isAnalyzing = True, analysis = JNull,
                 error = None, showResults = False\<rparr>,
      rendered = scenario_session,
      inflight = 1\<rparr>"
  by (simp add: call_runAnalysis_def scenario_world_def runAnalysis_in_same
        runAnalysis_scenario)
     (simp add: scenario_session_def initial_session_def)

lemma runAnalysis_cases:
  "runAnalysis s = (s, None) \<and> scores (answers s) = Inr None
   \<or> (\<exists>sc. runAnalysis s = (s\<lparr>isAnalyzing := True, error := None\<rparr>, Some sc)
          \<and> scores (answers s) = Inr (Some sc))"
proof (cases "fcard (fmdom (answers s)) < 10")
  case True
  then have "scores (answers s) = Inr None" by (simp add: scores_null_iff)
  then show ?thesis by (simp add: runAnalysis_def)
next
  case False
  then obtain sc where "scores (answers s) = Inr (Some sc)" using scores_defined by blast
  then show ?thesis by (simp add: runAnalysis_def)
qed

lemma reset_initial_iff: "reset s = initial_session \<longleftrightarrow> \<not> isAnalyzing s"
  by (cases s) (auto simp: reset_def initial_session_def)

lemma phase_reset:
  "phase (reset s) = (if isAnalyzing s then Analyzing else Collecting)"
  by (simp add: reset_def phase_def allAnswered_def QUESTIONS_def fcard_fempty)

section \<open>Facts about pages\<close>

lemma call_runAnalysis_fresh:
  assumes "rendered w = session w"
  shows "call_runAnalysis w = w
       \<or> call_runAnalysis w
           = w\<lparr>session := (session w)\<lparr>isAnalyzing := True, error := None\<rparr>,
               inflight := Suc (inflight w)\<rparr>"
  using assms runAnalysis_cases [of "session w"]
  by (auto simp: call_runAnalysis_def runAnalysis_in_same)

lemma step_fresh_single_flight:
  assumes "single_flight w" and "rendered w = session w" and "step w e = Some w'"
  shows "single_flight w'"
proof (cases e)
  case (ClickOption q v)
  with assms show ?thesis
    by (auto simp: single_flight_def handleAnswer_def split: if_splits)
next
  case ClickAnalyze
  with assms have idle: "\<not> isAnalyzing (session w)" and w': "w' = call_runAnalysis w"
    by (auto split: if_splits)
  from call_runAnalysis_fresh [OF assms(2)] show ?thesis
    using assms(1) idle unfolding w' by (auto simp: single_flight_def)
next
  case ClickReset
  with assms show ?thesis
    by (auto simp: single_flight_def reset_def split: if_splits)
next
  case (Response out)
  with assms show ?thesis
    by (auto simp: single_flight_def runAnalysis_settle_def split: if_splits)
next
  case Render
  with assms show ?thesis by (auto simp: single_flight_def)
qed

lemma step_fresh_results_idle:
  assumes "results_idle w" and "rendered w = session w" and "step w e = Some w'"
  shows "results_idle w'"
proof (cases e)
  case (ClickOption q v)
  with assms show ?thesis
    by (auto simp: results_idle_def handleAnswer_def split: if_splits)
next
  case ClickAnalyze
  with assms have hidden: "\<not> showResults (session w)" and w': "w' = call_runAnalysis w"
    by (auto split: if_splits)
  from call_runAnalysis_fresh [OF assms(2)] show ?thesis
    using hidden unfolding w' by (auto simp: results_idle_def)
next
  case ClickReset
  with assms show ?thesis
    by (auto simp: results_idle_def reset_def split: if_splits)
next
  case (Response out)
  with assms show ?thesis
    by (auto simp: results_idle_def runAnalysis_settle_def split: if_splits)
next
  case Render
  with assms show ?thesis by (auto simp: results_idle_def)
qed

lemma run_refreshed_invariant:
  assumes render: "\<And>w. P w \<Longrightarrow> P (w\<lparr>rendered := session w\<rparr>)"
    and fresh: "\<And>w e w'. P w \<Longrightarrow> rendered w = session w \<Longrightarrow> step w e = Some w' \<Longrightarrow> P w'"
  shows "P w \<Longrightarrow> run w (refreshed es) = Some w' \<Longrightarrow> P w'"
proof (induction es arbitrary: w)
  case Nil
  then show ?case by simp
next
  case (Cons e es)
  let ?v = "w\<lparr>rendered := session w\<rparr>"
  from Cons.prems(2) obtain u where u: "step ?v e = Some u" and rest: "run u (refreshed es) = Some w'"
    by (auto split: option.splits)
  have "P ?v" using Cons.prems(1) by (rule render)
  then have "P u" using u by (auto intro: fresh)
  then show ?case using rest by (rule Cons.IH)
qed

lemma run_refreshed_single_flight:
  assumes "run initial_world (refreshed es) = Some w"
  shows "single_flight w"
proof -
  have init: "single_flight initial_world"
    by (simp add: single_flight_def initial_world_def initial_session_def)
  have render: "single_flight (v\<lparr>rendered := session v\<rparr>)" if "single_flight v" for v
    using that by (simp add: single_flight_def)
  show ?thesis
    by (rule run_refreshed_invariant
        [where P = single_flight, OF render step_fresh_single_flight init assms])
qed

lemma run_refreshed_results_idle:
  assumes "run initial_world (refreshed es) = Some w"
  shows "results_idle w"
proof -
  have init: "results_idle initial_world"
    by (simp add: results_idle_def initial_world_def initial_session_def)
  have render: "results_idle (v\<lparr>rendered := session v\<rparr>)" if "results_idle v" for v
    using that by (simp add: results_idle_def)
  show ?thesis
    by (rule run_refreshed_invariant
        [where P = results_idle, OF render step_fresh_results_idle init assms])
qed

lemmas page_eval =
  initial_world_def initial_session_def handleAnswer_def call_runAnalysis_def
  runAnalysis_in_def allAnswered_def scores_def calculateTrait_def QUESTIONS_def
  fcard_finsert_if runAnalysis_settle_def reset_def scenario_options_def

lemma run_refreshed_clicks:
  "run initial_world (refreshed scenario_clicks) =
     Some \<lparr>session = \<lparr>answers = fmupd 10 0 (fmupd 9 0 (fmupd 8 0 (fmupd 7 0 (fmupd 6 0
               (fmupd 5 4 (fmupd 4 0 (fmupd 3 4 (fmupd 2 4 (fmupd 1 4 fmempty))))))))),
             isAnalyzing = True, analysis = JNull, error = None, showResults = False\<rparr>,
           rendered = \<lparr>answers = fmupd 10 0 (fmupd 9 0 (fmupd 8 0 (fmupd 7 0 (fmupd 6 0
               (fmupd 5 4 (fmupd 4 0 (fmupd 3 4 (fmupd 2 4 (fmupd 1 4 fmempty))))))))),
             isAnalyzing = False, analysis = JNull, error = None, showResults = False\<rparr>,
           inflight = 1\<rparr>"
  by (simp add: scenario_clicks_def page_eval)

lemma run_refreshed_to_results:
  "run initial_world (refreshed scenario_to_results) =
     Some \<lparr>session = \<lparr>answers = fmupd 10 0 (fmupd 9 0 (fmupd 8 0 (fmupd 7 0 (fmupd 6 0
               (fmupd 5 4 (fmupd 4 0 (fmupd 3 4 (fmupd 2 4 (fmupd 1 4 fmempty))))))))),
             isAnalyzing = False, analysis = payload_complete, error = None,
             showResults = True\<rparr>,
           rendered = \<lparr>answers = fmupd 10 0 (fmupd 9 0 (fmupd 8 0 (fmupd 7 0 (fmupd 6 0
               (fmupd 5 4 (fmupd 4 0 (fmupd 3 4 (fmupd 2 4 (fmupd 1 4 fmempty))))))))),
             isAnalyzing = True, analysis = JNull, error = None, showResults = False\<rparr>,
           inflight = 0\<rparr>"
  by (simp add: scenario_to_results_def scenario_clicks_def page_eval)

lemma run_double_click:
  "run initial_world double_click =
     Some \<lparr>session = \<lparr>answers = fmupd 10 0 (fmupd 9 0 (fmupd 8 0 (fmupd 7 0 (fmupd 6 0
               (fmupd 5 4 (fmupd 4 0 (fmupd 3 4 (fmupd 2 4 (fmupd 1 4 fmempty))))))))),
             isAnalyzing = True, analysis = JNull, error = None, showResults = False\<rparr>,
           rendered = \<lparr>answers = fmupd 10 0 (fmupd 9 0 (fmupd 8 0 (fmupd 7 0 (fmupd 6 0
               (fmupd 5 4 (fmupd 4 0 (fmupd 3 4 (fmupd 2 4 (fmupd 1 4 fmempty))))))))),
             isAnalyzing = False, analysis = JNull, error = None, showResults = False\<rparr>,
           inflight = 2\<rparr>"
  by (simp add: double_click_def page_eval)

lemma run_results_during_flight:
  "run initial_world results_during_flight =
     Some \<lparr>session = \<lparr>answers = fmupd 10 0 (fmupd 9 0 (fmupd 8 0 (fmupd 7 0 (fmupd 6 0
               (fmupd 5 4 (fmupd 4 0 (fmupd 3 4 (fmupd 2 4 (fmupd 1 4 fmempty))))))))),
             isAnalyzing = True, analysis = payload_complete, error = None,
             showResults = True\<rparr>,
           rendered = \<lparr>answers = fmupd 10 0 (fmupd 9 0 (fmupd 8 0 (fmupd 7 0 (fmupd 6 0
               (fmupd 5 4 (fmupd 4 0 (fmupd 3 4 (fmupd 2 4 (fmupd 1 4 fmempty))))))))),
             isAnalyzing = True, analysis = payload_complete, error = None,
             showResults = True\<rparr>,
           inflight = 1\<rparr>"
  by (simp add: results_during_flight_def double_click_def page_eval)

section \<open>The catalog\<close>

text \<open>
  Claim C10. The catalog is a fixed list of exactly ten questions whose identifiers are
  1 to 10 in order, hence unique, and every trait has exactly two questions: exactly one
  of positive and exactly one of negative polarity.
\<close>

theorem QUESTIONS_valid:
  "length QUESTIONS = 10
   \<and> map qid QUESTIONS = [1, 2, 3, 4, 5, 6, 7, 8, 9, 10]
   \<and> distinct (map qid QUESTIONS)
   \<and> (\<forall>T. length (filter (\<lambda>q. trait q = T) QUESTIONS) = 2
          \<and> length (filter (\<lambda>q. trait q = T \<and> isPositive q) QUESTIONS) = 1
          \<and> length (filter (\<lambda>q. trait q = T \<and> \<not> isPositive q) QUESTIONS) = 1)"
proof -
  have per_trait: "length (filter (\<lambda>q. trait q = T) QUESTIONS) = 2
      \<and> length (filter (\<lambda>q. trait q = T \<and> isPositive q) QUESTIONS) = 1
      \<and> length (filter (\<lambda>q. trait q = T \<and> \<not> isPositive q) QUESTIONS) = 1" for T
    by (cases T) (simp_all add: QUESTIONS_def)
  have ids: "map qid QUESTIONS = [1, 2, 3, 4, 5, 6, 7, 8, 9, 10]"
    by (simp add: QUESTIONS_def)
  have "length QUESTIONS = 10" by (simp add: QUESTIONS_def)
  moreover have "distinct (map qid QUESTIONS)" by (simp add: ids)
  ultimately show ?thesis using ids per_trait by blast
qed

section \<open>The scorer\<close>

text \<open>
  Claim C1. Let \<open>posQ\<close> and \<open>negQ\<close> be the positive and the negative question of a trait
  \<open>T\<close> in the catalog, answered with \<open>p\<close> and \<open>n\<close>, both between 0 and 4. Then
  \<open>calculateTrait\<close> returns the number \<open>(p + (4 - n)) / 2\<close>; once the answers object has
  ten keys the scores record exists and holds this number for \<open>T\<close>; the number lies
  between 0 and 4; and it is 0 for \<open>p = 0, n = 4\<close>, 4 for \<open>p = 4, n = 0\<close> and 2 for
  \<open>p = 2, n = 2\<close>.
\<close>

theorem calculateTrait_reflect_average:
  assumes "posQ \<in> set QUESTIONS" and "trait posQ = T" and "isPositive posQ"
    and "negQ \<in> set QUESTIONS" and "trait negQ = T" and "\<not> isPositive negQ"
    and "fmlookup a (qid posQ) = Some p" and "fmlookup a (qid negQ) = Some n"
    and "0 \<le> p" and "p \<le> 4" and "0 \<le> n" and "n \<le> 4"
  shows "\<exists>r. calculateTrait a T = Inr (Num r)
           \<and> r = (of_int p + (4 - of_int n)) / 2
           \<and> 0 \<le> r \<and> r \<le> 4
           \<and> (\<forall>sc. scores a = Inr (Some sc) \<longrightarrow> score_of sc T = Num r)
           \<and> (\<not> fcard (fmdom a) < 10 \<longrightarrow>
                (\<exists>sc. scores a = Inr (Some sc) \<and> score_of sc T = Num r))
           \<and> (p = 0 \<and> n = 4 \<longrightarrow> r = 0)
           \<and> (p = 4 \<and> n = 0 \<longrightarrow> r = 4)
           \<and> (p = 2 \<and> n = 2 \<longrightarrow> r = 2)"
proof -
  define r :: rat where "r = (of_int p + (4 - of_int n)) / 2"
  have pos: "find (\<lambda>q. trait q = T \<and> isPositive q) QUESTIONS = Some posQ"
    using assms(1-3) by (rule find_positive)
  have neg: "find (\<lambda>q. trait q = T \<and> \<not> isPositive q) QUESTIONS = Some negQ"
    using assms(4-6) by (rule find_negative)
  have calc: "calculateTrait a T = Inr (Num r)"
    by (simp add: calculateTrait_def pos neg assms(7,8) r_def)
  have lo: "0 \<le> r" using assms(9-12) by (simp add: r_def)
  have "of_int p + (4 - of_int n) \<le> (8::rat)"
  proof -
    have "p + (4 - n) \<le> 8" using assms(9-12) by linarith
    then have "(of_int (p + (4 - n)) :: rat) \<le> of_int 8" by (simp only: of_int_le_iff)
    then show ?thesis by simp
  qed
  then have hi: "r \<le> 4" by (simp add: r_def)
  have sc: "\<forall>sc. scores a = Inr (Some sc) \<longrightarrow> score_of sc T = Num r"
    using scores_fields [of a _ T] calc by auto
  have present: "\<not> fcard (fmdom a) < 10 \<longrightarrow>
      (\<exists>sc. scores a = Inr (Some sc) \<and> score_of sc T = Num r)"
    using scores_defined [of a] sc by blast
  show ?thesis
    using calc lo hi sc present by (intro exI [of _ r]) (auto simp: r_def)
qed

theorem calculateTrait_reflect_average_witness:
  "QUESTIONS ! 0 \<in> set QUESTIONS \<and> trait (QUESTIONS ! 0) = TraitE \<and> isPositive (QUESTIONS ! 0)
   \<and> QUESTIONS ! 5 \<in> set QUESTIONS \<and> trait (QUESTIONS ! 5) = TraitE \<and> \<not> isPositive (QUESTIONS ! 5)
   \<and> fmlookup scenario_answers (qid (QUESTIONS ! 0)) = Some 4
   \<and> fmlookup scenario_answers (qid (QUESTIONS ! 5)) = Some 0
   \<and> \<not> fcard (fmdom scenario_answers) < 10
   \<and> calculateTrait scenario_answers TraitE = Inr (Num 4)
   \<and> (\<exists>sc. scores scenario_answers = Inr (Some sc) \<and> score_of sc TraitE = Num 4)"
proof -
  have h1: "QUESTIONS ! 0 \<in> set QUESTIONS" by (simp add: QUESTIONS_def)
  have h2: "trait (QUESTIONS ! 0) = TraitE" by (simp add: QUESTIONS_def)
  have h3: "isPositive (QUESTIONS ! 0)" by (simp add: QUESTIONS_def)
  have h4: "QUESTIONS ! 5 \<in> set QUESTIONS" by (simp add: QUESTIONS_def)
  have h5: "trait (QUESTIONS ! 5) = TraitE" by (simp add: QUESTIONS_def)
  have h6: "\<not> isPositive (QUESTIONS ! 5)" by (simp add: QUESTIONS_def)
  have h7: "fmlookup scenario_answers (qid (QUESTIONS ! 0)) = Some 4"
    by (simp add: QUESTIONS_def scenario_answers_def)
  have h8: "fmlookup scenario_answers (qid (QUESTIONS ! 5)) = Some 0"
    by (simp add: QUESTIONS_def scenario_answers_def)
  have full: "\<not> fcard (fmdom scenario_answers) < 10"
    by (simp add: scenario_answers_def fcard_finsert_if)
  have "\<exists>r. calculateTrait scenario_answers TraitE = Inr (Num r)
           \<and> r = (of_int 4 + (4 - of_int 0)) / 2
           \<and> 0 \<le> r \<and> r \<le> 4
           \<and> (\<forall>sc. scores scenario_answers = Inr (Some sc) \<longrightarrow> score_of sc TraitE = Num r)
           \<and> (\<not> fcard (fmdom scenario_answers) < 10 \<longrightarrow>
                (\<exists>sc. scores scenario_answers = Inr (Some sc) \<and> score_of sc TraitE = Num r))
           \<and> ((4::int) = 0 \<and> (0::int) = 4 \<longrightarrow> r = 0)
           \<and> ((4::int) = 4 \<and> (0::int) = 0 \<longrightarrow> r = 4)
           \<and> ((4::int) = 2 \<and> (0::int) = 2 \<longrightarrow> r = 2)"
    by (rule calculateTrait_reflect_average [OF h1 h2 h3 h4 h5 h6 h7 h8]) simp_all
  then obtain r where r: "calculateTrait scenario_answers TraitE = Inr (Num r)"
      and four: "r = 4"
      and sc: "\<not> fcard (fmdom scenario_answers) < 10 \<longrightarrow>
                (\<exists>sc. scores scenario_answers = Inr (Some sc) \<and> score_of sc TraitE = Num r)"
    by auto
  have c: "calculateTrait scenario_answers TraitE = Inr (Num 4)" using r four by simp
  have s: "\<exists>sc. scores scenario_answers = Inr (Some sc) \<and> score_of sc TraitE = Num 4"
    using sc full four by simp
  show ?thesis using h1 h2 h3 h4 h5 h6 h7 h8 full c s by blast
qed

text \<open>
  Claim C5, as stated, fails. On the answers 1:4, 2:4, 3:4, 4:0, 5:4, 6:0, 7:0, 8:0,
  9:0, 10:0 the scores are not 4 for all five traits: the positive question of N is
  question 4, answered 0, and the negative one is question 9, answered 0, so N is
  \<open>(0 + (4 - 0)) / 2 = 2\<close>.
\<close>

theorem scenario_neuroticism_is_two:
  "scores scenario_answers \<noteq>
     Inr (Some \<lparr>score_E = Num 4, score_A = Num 4, score_C = Num 4,
                score_N = Num 4, score_O = Num 4\<rparr>)
   \<and> calculateTrait scenario_answers TraitN = Inr (Num 2)"
  by (simp add: scores_of_scenario)
     (simp add: scenario_answers_def calculateTrait_def QUESTIONS_def)

text \<open>
  Claim C5, amended. On these answers the scorer yields 4 for E, A, C and O, and 2 for N.
\<close>

theorem scenario_scores:
  "scores scenario_answers =
     Inr (Some \<lparr>score_E = Num 4, score_A = Num 4, score_C = Num 4,
                score_N = Num 2, score_O = Num 4\<rparr>)
   \<and> score_of \<lparr>score_E = Num 4, score_A = Num 4, score_C = Num 4,
                score_N = Num 2, score_O = Num 4\<rparr> TraitN = Num 2"
  by (simp add: scores_of_scenario)

section \<open>Collecting answers\<close>

text \<open>
  Claim C4. For an answers object whose keys are question identifiers of the catalog:
  the scores are absent exactly while some question of the catalog has no answer, and
  present once all have one; an answer makes absent scores present precisely when it is
  for a question not answered before and nine were answered before; and an answer to a
  question already answered changes neither the number of answered questions nor
  whether the scores are present.
\<close>

theorem scores_completeness_gate:
  assumes "fmdom (answers s) |\<subseteq>| question_ids"
  shows "(scores (answers s) = Inr None \<longleftrightarrow> \<not> question_ids |\<subseteq>| fmdom (answers s))
       \<and> (question_ids |\<subseteq>| fmdom (answers s) \<longrightarrow> (\<exists>sc. scores (answers s) = Inr (Some sc)))
       \<and> (\<forall>q v. q |\<in>| question_ids \<longrightarrow>
            (scores (answers s) = Inr None \<and> scores (answers (handleAnswer s q v)) \<noteq> Inr None
             \<longleftrightarrow> q |\<notin>| fmdom (answers s) \<and> fcard (fmdom (answers s)) = 9))
       \<and> (\<forall>q v. q |\<in>| fmdom (answers s) \<longrightarrow>
            fcard (fmdom (answers (handleAnswer s q v))) = fcard (fmdom (answers s))
            \<and> (scores (answers (handleAnswer s q v)) = Inr None
                 \<longleftrightarrow> scores (answers s) = Inr None))"
proof -
  let ?D = "fmdom (answers s)"
  have le: "fcard ?D \<le> 10"
    using fcard_mono [OF assms] by (simp add: fcard_question_ids)
  have full: "question_ids |\<subseteq>| ?D \<longleftrightarrow> \<not> fcard ?D < 10"
  proof
    assume "question_ids |\<subseteq>| ?D"
    then have "?D = question_ids" using assms by auto
    then show "\<not> fcard ?D < 10" by (simp add: fcard_question_ids)
  next
    assume "\<not> fcard ?D < 10"
    then have "fcard question_ids \<le> fcard ?D" by (simp add: fcard_question_ids)
    then have "?D = question_ids" using assms by (rule fcard_seteq [rotated])
    then show "question_ids |\<subseteq>| ?D" by simp
  qed
  have c1: "scores (answers s) = Inr None \<longleftrightarrow> \<not> question_ids |\<subseteq>| ?D"
    by (simp add: scores_null_iff full)
  have c2: "question_ids |\<subseteq>| ?D \<longrightarrow> (\<exists>sc. scores (answers s) = Inr (Some sc))"
    using scores_defined full by blast
  have c3: "scores (answers s) = Inr None \<and> scores (answers (handleAnswer s q v)) \<noteq> Inr None
             \<longleftrightarrow> q |\<notin>| ?D \<and> fcard ?D = 9" for q v
    using le by (auto simp: scores_null_iff handleAnswer_def fcard_finsert_if)
  have c4: "q |\<in>| ?D \<longrightarrow>
            fcard (fmdom (answers (handleAnswer s q v))) = fcard ?D
            \<and> (scores (answers (handleAnswer s q v)) = Inr None
                 \<longleftrightarrow> scores (answers s) = Inr None)" for q v
    by (simp add: scores_null_iff handleAnswer_def fcard_finsert_if)
  show ?thesis using c1 c2 c3 c4 by blast
qed

theorem scores_completeness_gate_witness:
  "fmdom (answers nine_answered) |\<subseteq>| question_ids
   \<and> scores (answers nine_answered) = Inr None
   \<and> scores (answers (handleAnswer nine_answered 9 1)) = Inr None
   \<and> scores (answers (handleAnswer nine_answered 10 0)) \<noteq> Inr None"
proof -
  have dom: "fmdom (answers nine_answered) = {|1, 2, 3, 4, 5, 6, 7, 8, 9|}"
    by (simp add: nine_answered_def initial_session_def)
  have h: "fmdom (answers nine_answered) |\<subseteq>| question_ids"
    by (simp add: dom question_ids_def QUESTIONS_def)
  have ten: "(10::int) |\<in>| question_ids" by (simp add: question_ids_def QUESTIONS_def)
  have nine: "(9::int) |\<in>| fmdom (answers nine_answered)" by (simp add: dom)
  have notin: "(10::int) |\<notin>| fmdom (answers nine_answered)" by (simp add: dom)
  have card: "fcard (fmdom (answers nine_answered)) = 9"
    by (simp add: dom fcard_finsert_if)
  note g = scores_completeness_gate [OF h]
  have a: "scores (answers nine_answered) = Inr None"
    using g ten notin by blast
  have b: "scores (answers (handleAnswer nine_answered 9 1)) = Inr None"
    using g nine a by blast
  have c: "scores (answers (handleAnswer nine_answered 10 0)) \<noteq> Inr None"
    using g ten notin card by blast
  show ?thesis using h a b c by blast
qed

text \<open>
  Claim C9. \<open>handleAnswer\<close> stores the value under the question's identifier and leaves
  every other identifier's answer as it was; a later value for the same identifier
  replaces the earlier one; and giving the same value for the same identifier twice
  gives the same session, hence the same scores, as giving it once.
\<close>

theorem handleAnswer_last_write_wins:
  "fmlookup (answers (handleAnswer s q v)) q = Some v
   \<and> (\<forall>q'. q' \<noteq> q \<longrightarrow>
         fmlookup (answers (handleAnswer s q v)) q' = fmlookup (answers s) q')
   \<and> handleAnswer (handleAnswer s q v0) q v = handleAnswer s q v
   \<and> handleAnswer (handleAnswer s q v) q v = handleAnswer s q v
   \<and> scores (answers (handleAnswer (handleAnswer s q v) q v))
       = scores (answers (handleAnswer s q v))"
  by (simp add: handleAnswer_def)

theorem handleAnswer_last_write_wins_witness:
  "(2::int) \<noteq> 1
   \<and> fmlookup (answers (handleAnswer (handleAnswer initial_session 2 3) 1 4)) 2 = Some 3
   \<and> fmlookup (answers (handleAnswer (handleAnswer initial_session 2 3) 1 4)) 1 = Some 4"
proof -
  have "fmlookup (answers (handleAnswer initial_session 2 3)) 2 = Some 3"
    using handleAnswer_last_write_wins [of initial_session 2 3] by blast
  moreover have "fmlookup (answers (handleAnswer (handleAnswer initial_session 2 3) 1 4)) 2
      = fmlookup (answers (handleAnswer initial_session 2 3)) 2"
    using handleAnswer_last_write_wins [of "handleAnswer initial_session 2 3" 1 4] by simp
  moreover have "fmlookup (answers (handleAnswer (handleAnswer initial_session 2 3) 1 4)) 1 = Some 4"
    using handleAnswer_last_write_wins [of "handleAnswer initial_session 2 3" 1 4] by blast
  ultimately show ?thesis by simp
qed

section \<open>The analysis call\<close>

text \<open>
  Claim C2, as stated, fails. In the scenario session with its call in flight, a response
  that decodes to an object without \<^verbatim>\<open>jobs\<close> is stored as the analysis: no error is
  set, the results view is shown, and the session differs from the one a transport
  failure leaves.
\<close>

theorem missing_field_is_stored:
  "field_of payload_without_jobs ''jobs'' = None
   \<and> error (runAnalysis_settle (fst (runAnalysis scenario_session))
              (Resolved (Json payload_without_jobs))) = None
   \<and> analysis (runAnalysis_settle (fst (runAnalysis scenario_session))
                 (Resolved (Json payload_without_jobs))) = payload_without_jobs
   \<and> phase (runAnalysis_settle (fst (runAnalysis scenario_session))
              (Resolved (Json payload_without_jobs))) = Displaying
   \<and> runAnalysis_settle (fst (runAnalysis scenario_session))
        (Resolved (Json payload_without_jobs))
     \<noteq> runAnalysis_settle (fst (runAnalysis scenario_session)) (Rejected ''network'')"
  by (simp add: in_flight_scenario runAnalysis_settle_def payload_without_jobs_def phase_def)

text \<open>
  Claim C2, amended. When the call returns, any text that \<^verbatim>\<open>JSON.parse\<close> decodes is
  stored as the analysis, whatever properties the value has, and the results view is
  shown, with the error left as it was (cleared when the call was issued); a response
  without text is read as the empty object. Only text that \<^verbatim>\<open>JSON.parse\<close> rejects is
  handled as a transport failure is.
\<close>

theorem runAnalysis_settle_resolved:
  "runAnalysis_settle s (Resolved (Json v))
     = s\<lparr>analysis := v, showResults := True, isAnalyzing := False\<rparr>
   \<and> runAnalysis_settle s (Resolved NoText)
     = s\<lparr>analysis := JObj [], showResults := True, isAnalyzing := False\<rparr>
   \<and> error (runAnalysis_settle s (Resolved (Json v))) = error s
   \<and> runAnalysis_settle s (Resolved BadJson) = runAnalysis_settle s (Rejected detail)"
  by (simp add: runAnalysis_settle_def)

text \<open>
  Claim C7. When the call throws, whatever the exception, the session gets the one fixed
  error message and the in-flight flag is cleared; the analysis, the answers and hence
  the scores are as before; and where scores were present, \<open>runAnalysis\<close> on the
  resulting session issues a call from the same scores.
\<close>

theorem transport_failure_is_retryable:
  "runAnalysis_settle s (Rejected detail)
     = s\<lparr>error := Some ERROR_MESSAGE, isAnalyzing := False\<rparr>
   \<and> analysis (runAnalysis_settle s (Rejected detail)) = analysis s
   \<and> answers (runAnalysis_settle s (Rejected detail)) = answers s
   \<and> scores (answers (runAnalysis_settle s (Rejected detail))) = scores (answers s)
   \<and> (\<forall>sc. scores (answers s) = Inr (Some sc) \<longrightarrow>
         runAnalysis (runAnalysis_settle s (Rejected detail))
           = (s\<lparr>error := None, isAnalyzing := True\<rparr>, Some sc))"
  by (simp add: runAnalysis_settle_def runAnalysis_def)

theorem transport_failure_is_retryable_witness:
  "scores (answers (fst (runAnalysis scenario_session)))
     = Inr (Some \<lparr>score_E = Num 4, score_A = Num 4, score_C = Num 4,
                  score_N = Num 2, score_O = Num 4\<rparr>)
   \<and> error (runAnalysis_settle (fst (runAnalysis scenario_session)) (Rejected ''network''))
       = Some ERROR_MESSAGE
   \<and> analysis (runAnalysis_settle (fst (runAnalysis scenario_session)) (Rejected ''network''))
       = JNull
   \<and> snd (runAnalysis
            (runAnalysis_settle (fst (runAnalysis scenario_session)) (Rejected ''network'')))
       = Some \<lparr>score_E = Num 4, score_A = Num 4, score_C = Num 4,
               score_N = Num 2, score_O = Num 4\<rparr>"
proof -
  let ?s = "fst (runAnalysis scenario_session)"
  let ?sc = "\<lparr>score_E = Num 4, score_A = Num 4, score_C = Num 4,
               score_N = Num 2, score_O = Num 4\<rparr>"
  have h: "scores (answers ?s) = Inr (Some ?sc)"
    by (simp add: in_flight_scenario scores_of_scenario)
  have an: "analysis ?s = JNull"
    by (simp add: in_flight_scenario)
  note t = transport_failure_is_retryable [of ?s "''network''"]
  have "runAnalysis (runAnalysis_settle ?s (Rejected ''network''))
          = (?s\<lparr>error := None, isAnalyzing := True\<rparr>, Some ?sc)"
    using t h by blast
  then have r: "snd (runAnalysis (runAnalysis_settle ?s (Rejected ''network''))) = Some ?sc"
    by simp
  have e: "error (runAnalysis_settle ?s (Rejected ''network'')) = Some ERROR_MESSAGE"
    using t by simp
  have a: "analysis (runAnalysis_settle ?s (Rejected ''network'')) = JNull"
    using t an by simp
  show ?thesis using h e a r by blast
qed

text \<open>
  Claim C3, as stated, fails. On a fresh page, after the ten option clicks of the
  scenario and a render, two clicks on the analysis button with no render between them
  leave two external calls outstanding: \<open>runAnalysis\<close> called again while the first call
  is in flight is not a no-op.
\<close>

theorem second_click_issues_second_call:
  "run initial_world double_click \<noteq> None
   \<and> inflight (the (run initial_world double_click)) = 2
   \<and> isAnalyzing (session (call_runAnalysis scenario_world))
   \<and> inflight (call_runAnalysis scenario_world) = 1
   \<and> call_runAnalysis (call_runAnalysis scenario_world) \<noteq> call_runAnalysis scenario_world
   \<and> inflight (call_runAnalysis (call_runAnalysis scenario_world)) = 2"
  by (simp add: run_double_click call_runAnalysis_scenario)
     (simp add: call_runAnalysis_def runAnalysis_in_def scenario_session_def
        scores_of_scenario)

text \<open>
  Claim C3, amended. \<open>runAnalysis\<close> has no in-flight check of its own: it does nothing
  only while the scores are absent, and with scores present it issues a call, whatever
  the in-flight flag. The guard is in the view: a view rendered with the flag set has no
  analysis button, so that a click on it is not possible; and on a page whose view is
  rendered anew before every event, at most one call is outstanding, and one is
  outstanding exactly while the flag is set.
\<close>

theorem fresh_view_keeps_single_flight:
  "(run initial_world (refreshed es) = Some w \<longrightarrow>
      inflight w \<le> 1 \<and> (inflight w = 1 \<longleftrightarrow> isAnalyzing (session w)))
   \<and> (isAnalyzing (rendered v) \<longrightarrow> step v ClickAnalyze = None)
   \<and> (scores (answers s) = Inr None \<longrightarrow> runAnalysis s = (s, None))
   \<and> (\<forall>sc. scores (answers s) = Inr (Some sc) \<longrightarrow> snd (runAnalysis s) = Some sc)"
proof -
  have page: "inflight w \<le> 1 \<and> (inflight w = 1 \<longleftrightarrow> isAnalyzing (session w))"
    if "run initial_world (refreshed es) = Some w"
    using run_refreshed_single_flight [OF that] by (simp add: single_flight_def)
  have gate: "isAnalyzing (rendered v) \<longrightarrow> step v ClickAnalyze = None"
    by simp
  have handler: "(scores (answers s) = Inr None \<longrightarrow> runAnalysis s = (s, None))
      \<and> (\<forall>sc. scores (answers s) = Inr (Some sc) \<longrightarrow> snd (runAnalysis s) = Some sc)"
    by (simp add: runAnalysis_def)
  show ?thesis using page gate handler by blast
qed

theorem fresh_view_keeps_single_flight_witness:
  "run initial_world (refreshed scenario_clicks) \<noteq> None
   \<and> inflight (the (run initial_world (refreshed scenario_clicks))) = 1
   \<and> isAnalyzing (rendered (call_runAnalysis scenario_world
                              \<lparr>rendered := session (call_runAnalysis scenario_world)\<rparr>))
   \<and> step (call_runAnalysis scenario_world
             \<lparr>rendered := session (call_runAnalysis scenario_world)\<rparr>) ClickAnalyze = None
   \<and> scores (answers initial_session) = Inr None
   \<and> runAnalysis initial_session = (initial_session, None)
   \<and> snd (runAnalysis scenario_session)
       = Some \<lparr>score_E = Num 4, score_A = Num 4, score_C = Num 4,
               score_N = Num 2, score_O = Num 4\<rparr>"
proof -
  let ?v = "call_runAnalysis scenario_world
              \<lparr>rendered := session (call_runAnalysis scenario_world)\<rparr>"
  let ?sc = "\<lparr>score_E = Num 4, score_A = Num 4, score_C = Num 4,
               score_N = Num 2, score_O = Num 4\<rparr>"
  obtain w where w: "run initial_world (refreshed scenario_clicks) = Some w"
    using run_refreshed_clicks by blast
  have an: "isAnalyzing (session w)" using w by (auto simp: run_refreshed_clicks)
  have shown: "isAnalyzing (rendered ?v)" by (simp add: call_runAnalysis_scenario)
  have absent: "scores (answers initial_session) = Inr None"
    by (simp add: initial_session_def scores_null_iff fcard_fempty)
  have present: "scores (answers scenario_session) = Inr (Some ?sc)"
    by (simp add: scenario_session_def scores_of_scenario)
  note t = fresh_view_keeps_single_flight [of scenario_clicks w ?v initial_session]
  note t' = fresh_view_keeps_single_flight [of scenario_clicks w ?v scenario_session]
  have one: "inflight w = 1" using t w an by blast
  have gate: "step ?v ClickAnalyze = None" using t shown by blast
  have noop: "runAnalysis initial_session = (initial_session, None)" using t absent by blast
  have call: "snd (runAnalysis scenario_session) = Some ?sc" using t' present by blast
  show ?thesis using w one shown gate absent noop call by simp
qed

section \<open>Reset\<close>

text \<open>
  Claim C6. \<open>reset\<close> leaves the in-flight flag as it is, and a call that was outstanding
  stays so. When that call then returns a decodable response, the response is stored as
  the analysis and the results view is shown, as it is from any session.
\<close>

theorem late_response_after_reset_is_stored:
  "isAnalyzing (reset s) = isAnalyzing s
   \<and> analysis (runAnalysis_settle (reset s) (Resolved (Json v))) = v
   \<and> showResults (runAnalysis_settle (reset s) (Resolved (Json v)))
   \<and> phase (runAnalysis_settle (reset s) (Resolved (Json v))) = Displaying
   \<and> analysis (runAnalysis_settle s' (Resolved (Json v))) = v
   \<and> phase (runAnalysis_settle s' (Resolved (Json v))) = Displaying
   \<and> (0 < inflight w \<longrightarrow>
        step (w\<lparr>session := reset (session w)\<rparr>) (Response (Resolved (Json v)))
          = Some \<lparr>session = (reset (session w))
                     \<lparr>analysis := v, showResults := True, isAnalyzing := False\<rparr>,
                  rendered = rendered w,
                  inflight = inflight w - 1\<rparr>)"
  by (simp add: reset_def runAnalysis_settle_def phase_def)

theorem late_response_after_reset_is_stored_witness:
  "0 < inflight (call_runAnalysis scenario_world)
   \<and> isAnalyzing (reset (session (call_runAnalysis scenario_world)))
   \<and> step ((call_runAnalysis scenario_world)
             \<lparr>session := reset (session (call_runAnalysis scenario_world))\<rparr>)
        (Response (Resolved (Json payload_without_jobs)))
       = Some \<lparr>session = \<lparr>answers = fmempty, isAnalyzing = False,
                           analysis = payload_without_jobs, error = None,
                           showResults = True\<rparr>,
               rendered = scenario_session,
               inflight = 0\<rparr>"
proof -
  let ?w = "call_runAnalysis scenario_world"
  have h: "0 < inflight ?w" by (simp add: call_runAnalysis_scenario)
  have an: "isAnalyzing (session ?w)" by (simp add: call_runAnalysis_scenario)
  note t = late_response_after_reset_is_stored
    [of "session ?w" payload_without_jobs "session ?w" ?w]
  have a: "isAnalyzing (reset (session ?w))" using t an by blast
  have "step (?w\<lparr>session := reset (session ?w)\<rparr>)
          (Response (Resolved (Json payload_without_jobs)))
        = Some \<lparr>session = (reset (session ?w))
                   \<lparr>analysis := payload_without_jobs, showResults := True,
                    isAnalyzing := False\<rparr>,
                rendered = rendered ?w,
                inflight = inflight ?w - 1\<rparr>"
    using t h by blast
  then have b: "step (?w\<lparr>session := reset (session ?w)\<rparr>)
          (Response (Resolved (Json payload_without_jobs)))
        = Some \<lparr>session = \<lparr>answers = fmempty, isAnalyzing = False,
                            analysis = payload_without_jobs, error = None,
                            showResults = True\<rparr>,
                rendered = scenario_session,
                inflight = 0\<rparr>"
    by (simp add: call_runAnalysis_scenario reset_def)
  show ?thesis using h a b by blast
qed

text \<open>
  Claim C8, as stated, fails. On a fresh page: the scenario's option clicks, a render,
  two clicks on the analysis button, a render, a failed response, a render, a successful
  response, a click on the analysis button still on screen, and a render. The results
  view is then on screen with its reset button, and the in-flight flag is set for the
  call just issued. \<open>reset\<close> there does not give the initial session, and the state is
  the analyzing one, not the collecting one. The same holds for \<open>reset\<close> applied
  directly to the scenario session with its call in flight.
\<close>

theorem reset_with_flag_set_is_not_initial:
  "run initial_world results_during_flight \<noteq> None
   \<and> offered (rendered (the (run initial_world results_during_flight))) ClickReset
   \<and> reset (session (the (run initial_world results_during_flight))) \<noteq> initial_session
   \<and> phase (reset (session (the (run initial_world results_during_flight)))) = Analyzing
   \<and> reset (fst (runAnalysis scenario_session)) \<noteq> initial_session
   \<and> phase (reset (fst (runAnalysis scenario_session))) = Analyzing"
  by (simp add: run_results_during_flight in_flight_scenario reset_initial_iff phase_reset)

text \<open>
  Claim C8, amended. \<open>reset\<close> can be applied to any session: it empties the answers, so
  that the scores are absent, clears the analysis and the error and leaves the results
  view, and it leaves the in-flight flag as it is. The result is the initial session,
  in the collecting state, exactly when the flag was clear; when it was set, the state
  is the analyzing one. On a page whose view is rendered anew before every event the
  flag is clear wherever the reset button is to be shown, and \<open>reset\<close> gives the initial
  session.
\<close>

theorem reset_clears_session:
  "answers (reset s) = fmempty
   \<and> scores (answers (reset s)) = Inr None
   \<and> analysis (reset s) = JNull
   \<and> error (reset s) = None
   \<and> \<not> showResults (reset s)
   \<and> isAnalyzing (reset s) = isAnalyzing s
   \<and> (reset s = initial_session \<longleftrightarrow> \<not> isAnalyzing s)
   \<and> (phase (reset s) = Collecting \<longleftrightarrow> \<not> isAnalyzing s)
   \<and> (phase (reset s) = Analyzing \<longleftrightarrow> isAnalyzing s)
   \<and> (run initial_world (refreshed es) = Some w \<and> offered (session w) ClickReset \<longrightarrow>
        reset (session w) = initial_session \<and> phase (reset (session w)) = Collecting)"
proof -
  have fields: "answers (reset s) = fmempty \<and> analysis (reset s) = JNull
      \<and> error (reset s) = None \<and> \<not> showResults (reset s)
      \<and> isAnalyzing (reset s) = isAnalyzing s"
    by (simp add: reset_def)
  have absent: "scores (answers (reset s)) = Inr None"
    by (simp add: reset_def scores_null_iff fcard_fempty)
  have page: "reset (session w) = initial_session \<and> phase (reset (session w)) = Collecting"
    if r: "run initial_world (refreshed es) = Some w" and o: "offered (session w) ClickReset"
  proof -
    have "results_idle w" using r by (rule run_refreshed_results_idle)
    then have "\<not> isAnalyzing (session w)" using o by (simp add: results_idle_def)
    then show ?thesis by (simp add: reset_initial_iff phase_reset)
  qed
  have collecting: "phase (reset s) = Collecting \<longleftrightarrow> \<not> isAnalyzing s"
    by (simp add: phase_reset)
  have analyzing: "phase (reset s) = Analyzing \<longleftrightarrow> isAnalyzing s"
    by (simp add: phase_reset)
  show ?thesis
    using fields absent page reset_initial_iff [of s] collecting analyzing by blast
qed

theorem reset_clears_session_witness:
  "run initial_world (refreshed scenario_to_results) \<noteq> None
   \<and> offered (session (the (run initial_world (refreshed scenario_to_results)))) ClickReset
   \<and> reset (session (the (run initial_world (refreshed scenario_to_results))))
       = initial_session"
proof -
  obtain w where w: "run initial_world (refreshed scenario_to_results) = Some w"
    using run_refreshed_to_results by blast
  have o: "offered (session w) ClickReset"
    using w by (auto simp: run_refreshed_to_results)
  have "reset (session w) = initial_session"
    using reset_clears_session [of "session w" scenario_to_results w] w o by blast
  then show ?thesis using w o by simp
qed

end
